theory Spec2Isabelle
  imports Complex_Main "HOL-Library.AList" "HOL-Library.Sublist"
begin

section \<open>Plugin recipes: the HTTP handlers of the recipe endpoints\<close>

text \<open>
  The handlers live in one Go file of package \<open>api\<close>. They use the request context
  (for the path parameters), the recipe provider held by the server, and the
  \<open>RecipeStep\<close> interface. The package \<open>recipes\<close> itself is not among the sources, so the
  provider and the step interface appear here as values carrying their methods: a
  record of functions stands for a Go interface value.

  Steps change things outside the handler (plugins on disk, settings, their own
  status). That outside is the type variable \<open>'w\<close>; every method reads it and \<open>Apply\<close> and
  \<open>Revert\<close> return the changed one.
\<close>

subsection \<open>Requests and responses\<close>

record ReqContext =
  Params :: "string \<rightharpoonup> string"

text \<open>\<open>web.Params(c.Req)[key]\<close>: a Go map read, the empty string for a missing key.\<close>

definition param :: "ReqContext \<Rightarrow> string \<Rightarrow> string" where
  "param c key = (case Params c key of None \<Rightarrow> [] | Some v \<Rightarrow> v)"

definition StatusOK :: nat where "StatusOK = 200"
definition StatusBadRequest :: nat where "StatusBadRequest = 400"
definition StatusNotFound :: nat where "StatusNotFound = 404"

text \<open>
  The three payloads the handlers serialise: the list of recipe DTOs (a Go slice of
  pointers, \<open>None\<close> for a slot that is still \<open>nil\<close>), one recipe DTO, one step DTO.
\<close>

datatype ('rd, 'sd) payload =
    RecipeList "'rd option list"
  | RecipeBody 'rd
  | StepBody 'sd

text \<open>\<open>response.Error(status, message, nil)\<close> and \<open>response.JSON(status, body)\<close>.\<close>

datatype ('rd, 'sd) response =
    Error nat string
  | JSON nat "('rd, 'sd) payload"

fun Status :: "('rd, 'sd) response \<Rightarrow> nat" where
  "Status (Error st msg) = st"
| "Status (JSON st body) = st"

subsection \<open>Steps, recipes, the provider\<close>

text \<open>
  Modelled from the spec: the interface \<open>RecipeStep\<close> of package \<open>recipes\<close>, which is not
  among the sources. The spec gives it \<open>apply(context) -> outcome\<close>,
  \<open>revert(context) -> outcome\<close> and a projection to a step DTO. The handlers call
  \<open>step.Apply(c)\<close> and \<open>step.Revert(c)\<close> as statements, so they drop the outcome.
\<close>

datatype outcome = StepOk | StepFailed

record ('w, 'sd) RecipeStep =
  Apply :: "ReqContext \<Rightarrow> 'w \<Rightarrow> outcome \<times> 'w"
  Revert :: "ReqContext \<Rightarrow> 'w \<Rightarrow> outcome \<times> 'w"
  StepToDto :: "ReqContext \<Rightarrow> 'w \<Rightarrow> 'sd"

text \<open>
  A recipe, as far as the handlers touch it: the field \<open>Steps\<close> and the method
  \<open>ToDto\<close>.
\<close>

record ('w, 'rd, 'sd) Recipe =
  Steps :: "('w, 'sd) RecipeStep list"
  ToDto :: "ReqContext \<Rightarrow> 'w \<Rightarrow> 'rd"

text \<open>
  The provider \<open>hs.recipeProvider\<close>: \<open>GetAll()\<close> and \<open>GetById(id)\<close>, the latter \<open>None\<close> for
  the \<open>nil\<close> that the handlers test.
\<close>

record ('w, 'rd, 'sd) RecipeProvider =
  GetAll :: "('w, 'rd, 'sd) Recipe list"
  GetById :: "string \<Rightarrow> ('w, 'rd, 'sd) Recipe option"

record ('w, 'rd, 'sd) HTTPServer =
  recipeProvider :: "('w, 'rd, 'sd) RecipeProvider"

subsection \<open>What a run leaves behind\<close>

text \<open>
  To speak about which methods were invoked, and in which order, every call of
  \<open>Apply\<close> or \<open>Revert\<close> is entered in a journal together with the outcome that the
  caller dropped. A run threads the outside and the journal.
\<close>

datatype step_method = MApply | MRevert

record ('w, 'sd) call =
  Method :: step_method
  Callee :: "('w, 'sd) RecipeStep"
  Outcome :: outcome

type_synonym ('w, 'sd) run = "'w \<times> ('w, 'sd) call list"

definition invoke_Apply ::
  "('w, 'sd) RecipeStep \<Rightarrow> ReqContext \<Rightarrow> ('w, 'sd) run \<Rightarrow> ('w, 'sd) run" where
  "invoke_Apply step c r =
     (case Apply step c (fst r) of
        (out, w') \<Rightarrow> (w', snd r @ [\<lparr>Method = MApply, Callee = step, Outcome = out\<rparr>]))"

definition invoke_Revert ::
  "('w, 'sd) RecipeStep \<Rightarrow> ReqContext \<Rightarrow> ('w, 'sd) run \<Rightarrow> ('w, 'sd) run" where
  "invoke_Revert step c r =
     (case Revert step c (fst r) of
        (out, w') \<Rightarrow> (w', snd r @ [\<lparr>Method = MRevert, Callee = step, Outcome = out\<rparr>]))"

text \<open>The journal without the outcomes: which method, on which step.\<close>

definition invoked :: "('w, 'sd) call list \<Rightarrow> (step_method \<times> ('w, 'sd) RecipeStep) list" where
  "invoked js = map (\<lambda>j. (Method j, Callee j)) js"

subsection \<open>Reading recipes\<close>

text \<open>
  \<open>GetRecipeList\<close>: a slice of \<open>len(rs)\<close> nil pointers, then \<open>dtos[i] = r.ToDto(c)\<close> for
  every index and recipe of the range loop.
\<close>

fun GetRecipeList_range ::
  "ReqContext \<Rightarrow> 'w \<Rightarrow> nat \<Rightarrow> ('w, 'rd, 'sd) Recipe list \<Rightarrow> 'rd option list \<Rightarrow> 'rd option list" where
  "GetRecipeList_range c w i [] dtos = dtos"
| "GetRecipeList_range c w i (r # rs) dtos =
     GetRecipeList_range c w (Suc i) rs (dtos[i := Some (ToDto r c w)])"

definition GetRecipeList ::
  "('w, 'rd, 'sd) HTTPServer \<Rightarrow> ReqContext \<Rightarrow> 'w \<Rightarrow> ('rd, 'sd) response" where
  "GetRecipeList hs c w =
     (let rs = GetAll (recipeProvider hs);
          dtos = replicate (length rs) None
      in JSON StatusOK (RecipeList (GetRecipeList_range c w 0 rs dtos)))"

definition GetRecipeByID ::
  "('w, 'rd, 'sd) HTTPServer \<Rightarrow> ReqContext \<Rightarrow> 'w \<Rightarrow> ('rd, 'sd) response" where
  "GetRecipeByID hs c w =
     (let recipeID = param c '':recipeId''
      in case GetById (recipeProvider hs) recipeID of
           None \<Rightarrow> Error StatusNotFound ''Plugin recipe not found with the same id''
         | Some recipe \<Rightarrow> JSON StatusOK (RecipeBody (ToDto recipe c w)))"

subsection \<open>Whole recipes\<close>

text \<open>
  The two goroutines. Each is the body of a \<open>for _, step := range ...\<close> loop; the one of
  \<open>UninstallRecipe\<close> ranges over \<open>recipe.Steps\<close> of the recipe it captured and leaves its
  own parameter \<open>steps\<close> unused.
\<close>

fun InstallRecipe_go ::
  "('w, 'sd) RecipeStep list \<Rightarrow> ReqContext \<Rightarrow> ('w, 'sd) run \<Rightarrow> ('w, 'sd) run" where
  "InstallRecipe_go [] c r = r"
| "InstallRecipe_go (step # steps) c r = InstallRecipe_go steps c (invoke_Apply step c r)"

fun UninstallRecipe_range ::
  "('w, 'sd) RecipeStep list \<Rightarrow> ReqContext \<Rightarrow> ('w, 'sd) run \<Rightarrow> ('w, 'sd) run" where
  "UninstallRecipe_range [] c r = r"
| "UninstallRecipe_range (step # rest) c r =
     UninstallRecipe_range rest c (invoke_Revert step c r)"

definition UninstallRecipe_go ::
  "('w, 'rd, 'sd) Recipe \<Rightarrow> ('w, 'sd) RecipeStep list \<Rightarrow> ReqContext \<Rightarrow>
   ('w, 'sd) run \<Rightarrow> ('w, 'sd) run" where
  "UninstallRecipe_go recipe steps c r = UninstallRecipe_range (Steps recipe) c r"

text \<open>
  A handler that starts a goroutine returns its response and the goroutine, which
  is a function on runs: the handler does not execute it. The world \<open>w\<close> is the one
  that \<open>recipe.ToDto(c)\<close> reads when the handler builds its response.
\<close>

definition InstallRecipe ::
  "('w, 'rd, 'sd) HTTPServer \<Rightarrow> ReqContext \<Rightarrow> 'w \<Rightarrow>
   ('rd, 'sd) response \<times> (('w, 'sd) run \<Rightarrow> ('w, 'sd) run) option" where
  "InstallRecipe hs c w =
     (let recipeID = param c '':recipeId''
      in case GetById (recipeProvider hs) recipeID of
           None \<Rightarrow> (Error StatusNotFound ''Plugin recipe not found with the same id'', None)
         | Some recipe \<Rightarrow>
             (JSON StatusOK (RecipeBody (ToDto recipe c w)),
              Some (InstallRecipe_go (Steps recipe) c)))"

definition UninstallRecipe ::
  "('w, 'rd, 'sd) HTTPServer \<Rightarrow> ReqContext \<Rightarrow> 'w \<Rightarrow>
   ('rd, 'sd) response \<times> (('w, 'sd) run \<Rightarrow> ('w, 'sd) run) option" where
  "UninstallRecipe hs c w =
     (let recipeID = param c '':recipeId''
      in case GetById (recipeProvider hs) recipeID of
           None \<Rightarrow> (Error StatusNotFound ''Plugin recipe not found with the same id'', None)
         | Some recipe \<Rightarrow>
             (JSON StatusOK (RecipeBody (ToDto recipe c w)),
              Some (UninstallRecipe_go recipe (Steps recipe) c)))"

text \<open>
  The goroutine a handler started runs to its end at some later time; a handler
  that started none leaves the run as it is.
\<close>

definition spawned_run ::
  "(('w, 'sd) run \<Rightarrow> ('w, 'sd) run) option \<Rightarrow> ('w, 'sd) run \<Rightarrow> ('w, 'sd) run" where
  "spawned_run g r = (case g of None \<Rightarrow> r | Some go \<Rightarrow> go r)"

subsection \<open>The step number: \<open>strconv.Atoi\<close>\<close>

text \<open>
  \<open>strconv.Atoi\<close> belongs to Go's standard library. It is written out here as the
  library has it, for a 64-bit \<open>int\<close>: a direct loop for strings of 1 to 18 bytes, and
  \<open>ParseInt(s, 10, 0)\<close> over \<open>ParseUint\<close> for the rest. A result is the pair of the
  number and the error, \<open>None\<close> for \<open>nil\<close>. A syntax error comes with the number 0, a
  range error with the nearest number the type holds.
\<close>

datatype NumError = ErrSyntax | ErrRange

definition byte :: "char \<Rightarrow> nat" where
  "byte ch = of_char ch"

definition intSize :: nat where "intSize = 64"

definition maxUint64 :: nat where "maxUint64 = 2 ^ 64 - 1"

fun ParseUint_range :: "string \<Rightarrow> nat \<Rightarrow> nat \<times> NumError option" where
  "ParseUint_range [] n = (n, None)"
| "ParseUint_range (ch # rest) n =
     (if \<not> (byte CHR ''0'' \<le> byte ch \<and> byte ch \<le> byte CHR ''9'') then (0, Some ErrSyntax)
      else if maxUint64 div 10 + 1 \<le> n then (maxUint64, Some ErrRange)
      else let n1 = n * 10 + (byte ch - byte CHR ''0'')
           in if maxUint64 < n1 then (maxUint64, Some ErrRange)
              else ParseUint_range rest n1)"

text \<open>
  \<open>ParseUint(s, 10, 64)\<close>. In base 10 every byte that is no decimal digit ends the
  loop with a syntax error (a letter has a digit value of 10 or more).
\<close>

definition ParseUint :: "string \<Rightarrow> nat \<times> NumError option" where
  "ParseUint s = (if s = [] then (0, Some ErrSyntax) else ParseUint_range s 0)"

definition ParseInt :: "string \<Rightarrow> int \<times> NumError option" where
  "ParseInt s =
     (if s = [] then (0, Some ErrSyntax)
      else
        let neg = (hd s = CHR ''-'');
            s1 = (if hd s = CHR ''+'' \<or> hd s = CHR ''-'' then tl s else s);
            un = fst (ParseUint s1);
            err = snd (ParseUint s1);
            cutoff = (2::nat) ^ (intSize - 1)
        in if err = Some ErrSyntax then (0, err)
           else if \<not> neg \<and> cutoff \<le> un then (int cutoff - 1, Some ErrRange)
           else if neg \<and> cutoff < un then (- int cutoff, Some ErrRange)
           else (if neg then - int un else int un, None))"

fun Atoi_range :: "string \<Rightarrow> int \<Rightarrow> int option" where
  "Atoi_range [] n = Some n"
| "Atoi_range (ch # rest) n =
     (let d = (byte ch + 256 - byte CHR ''0'') mod 256
      in if 9 < d then None else Atoi_range rest (n * 10 + int d))"

definition Atoi :: "string \<Rightarrow> int \<times> NumError option" where
  "Atoi s =
     (if 0 < length s \<and> length s < 19 then
        (let signed = (hd s = CHR ''-'' \<or> hd s = CHR ''+'');
             s1 = (if signed then tl s else s)
         in if signed \<and> length s1 < 1 then (0, Some ErrSyntax)
            else case Atoi_range s1 0 of
                   None \<Rightarrow> (0, Some ErrSyntax)
                 | Some n \<Rightarrow> (if hd s = CHR ''-'' then - n else n, None))
      else ParseInt s)"

subsection \<open>Single steps\<close>

text \<open>
  \<open>recipe.Steps[stepNumber]\<close> is a Go slice read: outside \<open>0 \<le> stepNumber < len\<close> the
  runtime panics with the index and the length.
\<close>

datatype panic = IndexOutOfRange int nat

definition index_Steps ::
  "('w, 'rd, 'sd) Recipe \<Rightarrow> int \<Rightarrow> panic + ('w, 'sd) RecipeStep" where
  "index_Steps recipe stepNumber =
     (if stepNumber < 0 \<or> int (length (Steps recipe)) \<le> stepNumber
      then Inl (IndexOutOfRange stepNumber (length (Steps recipe)))
      else Inr (Steps recipe ! nat stepNumber))"

text \<open>
  Both handlers test \<open>err == nil\<close> after \<open>Atoi\<close> and answer 400 in that branch; with an
  error they go on with the number \<open>Atoi\<close> returned beside it.
\<close>

definition ApplyRecipeStep ::
  "('w, 'rd, 'sd) HTTPServer \<Rightarrow> ReqContext \<Rightarrow> ('w, 'sd) run \<Rightarrow>
   panic + (('rd, 'sd) response \<times> ('w, 'sd) run)" where
  "ApplyRecipeStep hs c r =
     (let recipeID = param c '':recipeId'';
          stepNumber = fst (Atoi (param c '':stepNumber''));
          err = snd (Atoi (param c '':stepNumber''))
      in if err = None
         then Inr (Error StatusBadRequest ''The step number needs to be an number'', r)
         else case GetById (recipeProvider hs) recipeID of
                None \<Rightarrow> Inr (Error StatusNotFound ''Plugin recipe not found with the same id'', r)
              | Some recipe \<Rightarrow>
                  (case index_Steps recipe stepNumber of
                     Inl p \<Rightarrow> Inl p
                   | Inr step \<Rightarrow>
                       (let r1 = invoke_Apply step c r
                        in Inr (JSON StatusOK (StepBody (StepToDto step c (fst r1))), r1))))"

definition RevertRecipeStep ::
  "('w, 'rd, 'sd) HTTPServer \<Rightarrow> ReqContext \<Rightarrow> ('w, 'sd) run \<Rightarrow>
   panic + (('rd, 'sd) response \<times> ('w, 'sd) run)" where
  "RevertRecipeStep hs c r =
     (let recipeID = param c '':recipeId'';
          stepNumber = fst (Atoi (param c '':stepNumber''));
          err = snd (Atoi (param c '':stepNumber''))
      in if err = None
         then Inr (Error StatusBadRequest ''The step number needs to be an number'', r)
         else case GetById (recipeProvider hs) recipeID of
                None \<Rightarrow> Inr (Error StatusNotFound ''Plugin recipe not found with the same id'', r)
              | Some recipe \<Rightarrow>
                  (case index_Steps recipe stepNumber of
                     Inl p \<Rightarrow> Inl p
                   | Inr step \<Rightarrow>
                       (let r1 = invoke_Revert step c r
                        in Inr (JSON StatusOK (StepBody (StepToDto step c (fst r1))), r1))))"

subsection \<open>A recipe to run the handlers on\<close>

text \<open>
  The scenario of the specification: the recipe \<open>enable-foo\<close> with the steps
  \<open>InstallPlugin("foo")\<close> and \<open>EnableFeatureFlag("foo-ui")\<close>. The outside is the list of
  what is installed or enabled; a step's DTO is its name with its status. A third
  step, \<open>BrokenStep\<close>, fails whenever it is applied or reverted and changes nothing.
\<close>

definition InstallPlugin :: "string \<Rightarrow> (string list, string \<times> bool) RecipeStep" where
  "InstallPlugin n =
     \<lparr>Apply = (\<lambda>c w. (StepOk, w @ [''plugin:'' @ n])),
      Revert = (\<lambda>c w. (StepOk, removeAll (''plugin:'' @ n) w)),
      StepToDto = (\<lambda>c w. (''plugin:'' @ n, ''plugin:'' @ n \<in> set w))\<rparr>"

definition EnableFeatureFlag :: "string \<Rightarrow> (string list, string \<times> bool) RecipeStep" where
  "EnableFeatureFlag n =
     \<lparr>Apply = (\<lambda>c w. (StepOk, w @ [''flag:'' @ n])),
      Revert = (\<lambda>c w. (StepOk, removeAll (''flag:'' @ n) w)),
      StepToDto = (\<lambda>c w. (''flag:'' @ n, ''flag:'' @ n \<in> set w))\<rparr>"

definition BrokenStep :: "(string list, string \<times> bool) RecipeStep" where
  "BrokenStep =
     \<lparr>Apply = (\<lambda>c w. (StepFailed, w)),
      Revert = (\<lambda>c w. (StepFailed, w)),
      StepToDto = (\<lambda>c w. (''broken'', False))\<rparr>"

definition recipe_of ::
  "string \<Rightarrow> (string list, string \<times> bool) RecipeStep list \<Rightarrow>
   (string list, string \<times> (string \<times> bool) list, string \<times> bool) Recipe" where
  "recipe_of name steps =
     \<lparr>Steps = steps, ToDto = (\<lambda>c w. (name, map (\<lambda>s. StepToDto s c w) steps))\<rparr>"

definition enable_foo ::
  "(string list, string \<times> (string \<times> bool) list, string \<times> bool) Recipe" where
  "enable_foo = recipe_of ''enable-foo'' [InstallPlugin ''foo'', EnableFeatureFlag ''foo-ui'']"

definition shaky ::
  "(string list, string \<times> (string \<times> bool) list, string \<times> bool) Recipe" where
  "shaky = recipe_of ''shaky'' [BrokenStep, InstallPlugin ''bar'']"

definition example_hs ::
  "(string list, string \<times> (string \<times> bool) list, string \<times> bool) HTTPServer" where
  "example_hs =
     \<lparr>recipeProvider =
        \<lparr>GetAll = [enable_foo, shaky],
         GetById = (\<lambda>i. if i = ''enable-foo'' then Some enable_foo
                         else if i = ''shaky'' then Some shaky else None)\<rparr>\<rparr>"

definition recipe_request :: "string \<Rightarrow> ReqContext" where
  "recipe_request i = \<lparr>Params = ['':recipeId'' \<mapsto> i]\<rparr>"

definition step_request :: "string \<Rightarrow> string \<Rightarrow> ReqContext" where
  "step_request i n = \<lparr>Params = ['':recipeId'' \<mapsto> i, '':stepNumber'' \<mapsto> n]\<rparr>"

section \<open>Scene items: \<open>SceneItemBase.setState\<close>\<close>

text \<open>
  The TypeScript class \<open>SceneItemBase\<close> keeps its state in a plain object and
  announces every new state on a \<open>ReplaySubject\<close>. Values of state fields are modelled
  as far as \<open>setState\<close> and \<open>setParent\<close> look at them: primitives (numbers as integers),
  references to scene items, and arrays. Other kinds of objects are left out.
\<close>

type_synonym objid = nat

datatype jsval =
    Undefined
  | Null
  | Bool bool
  | Num int
  | Str string
  | Item objid
  | Arr "jsval list"

text \<open>
  An object: its own properties in their order. A key occurs once in an object;
  lists with a key twice do not stand for any.
\<close>

type_synonym jsobj = "(string \<times> jsval) list"

text \<open>Reading a property: \<open>undefined\<close> when the object has no such key.\<close>

definition get_prop :: "jsobj \<Rightarrow> string \<Rightarrow> jsval" where
  "get_prop obj key = (case map_of obj key of None \<Rightarrow> Undefined | Some v \<Rightarrow> v)"

text \<open>What \<open>if (children)\<close> tests.\<close>

fun truthy :: "jsval \<Rightarrow> bool" where
  "truthy Undefined = False"
| "truthy Null = False"
| "truthy (Bool b) = b"
| "truthy (Num n) = (n \<noteq> 0)"
| "truthy (Str s) = (s \<noteq> [])"
| "truthy (Item obj) = True"
| "truthy (Arr vs) = True"

text \<open>
  The object spread \<open>{...a, ...b}\<close>: a new object with the properties of \<open>a\<close>, into
  which the properties of \<open>b\<close> are put one after the other; a key that is already
  there keeps its place and takes the new value, a new key goes to the end. (A
  JavaScript object lists keys that look like array indices before all others; the
  list here does not, so it gives the properties and their values, while the order
  of the list is that of the object only for keys of the other kind.)
\<close>

definition spread :: "jsobj \<Rightarrow> jsobj \<Rightarrow> jsobj" where
  "spread a b = foldl (\<lambda>acc kv. AList.update (fst kv) (snd kv) acc) a b"

text \<open>
  \<open>new ReplaySubject<TState>()\<close> of rxjs, with its unbounded buffer: \<open>next\<close> stores the
  value and hands it to every observer; a new observer is first given the whole
  buffer. An observer is represented by the list of values it has received.
\<close>

record ReplaySubject =
  buffer :: "jsobj list"
  observers :: "jsobj list list"

definition subject_next :: "jsobj \<Rightarrow> ReplaySubject \<Rightarrow> ReplaySubject" where
  "subject_next v sub =
     \<lparr>buffer = buffer sub @ [v], observers = map (\<lambda>received. received @ [v]) (observers sub)\<rparr>"

definition subject_subscribe :: "ReplaySubject \<Rightarrow> ReplaySubject" where
  "subject_subscribe sub = sub\<lparr>observers := observers sub @ [buffer sub]\<rparr>"

text \<open>
  The fields of the class. (\<open>subs\<close>, the bag of subscriptions that \<open>onUnmount\<close> closes,
  plays no part in \<open>setState\<close> and is left out.)
\<close>

record SceneItemBase =
  subject :: ReplaySubject
  state :: jsobj
  parent :: "objid option"
  isMounted :: "bool option"

text \<open>
  Scene items are objects with identity: a state field holds a reference, and
  \<open>setParent\<close> writes through it. The heap gives the object behind every reference.
\<close>

type_synonym heap = "objid \<Rightarrow> SceneItemBase"

datatype js_exception = TypeError

definition assign_parent :: "objid \<Rightarrow> objid \<Rightarrow> heap \<Rightarrow> heap" where
  "assign_parent target this h = h(target := (h target)\<lparr>parent := Some this\<rparr>)"

text \<open>
  First loop of \<open>setParent\<close>, over \<open>Object.values(this.state)\<close>: a value that is a
  scene item gets \<open>this\<close> as its parent.
\<close>

fun setParent_values :: "jsval list \<Rightarrow> objid \<Rightarrow> heap \<Rightarrow> heap" where
  "setParent_values [] this h = h"
| "setParent_values (Item target # rest) this h =
     setParent_values rest this (assign_parent target this h)"
| "setParent_values (propValue # rest) this h = setParent_values rest this h"

text \<open>
  Second loop, \<open>for (const child of children) child.parent = this\<close>. The class body is
  strict code: the assignment throws a \<open>TypeError\<close> on \<open>undefined\<close>, \<open>null\<close> and on a
  primitive. On an array it adds a property to the array, which nothing here reads.
\<close>

fun setParent_children :: "jsval list \<Rightarrow> objid \<Rightarrow> heap \<Rightarrow> js_exception option \<times> heap" where
  "setParent_children [] this h = (None, h)"
| "setParent_children (Item target # rest) this h =
     setParent_children rest this (assign_parent target this h)"
| "setParent_children (Arr vs # rest) this h = setParent_children rest this h"
| "setParent_children (child # rest) this h = (Some TypeError, h)"

text \<open>
  \<open>setParent\<close>. A truthy \<open>children\<close> that is not an array is a number, \<open>true\<close>, a scene
  item (none of them iterable) or a string that is not empty (whose first character
  is a primitive): the \<open>for ... of\<close> throws in each case.
\<close>

definition setParent :: "objid \<Rightarrow> heap \<Rightarrow> js_exception option \<times> heap" where
  "setParent this h =
     (let h1 = setParent_values (map snd (state (h this))) this h;
          children = get_prop (state (h1 this)) ''children''
      in if truthy children
         then (case children of
                 Arr cs \<Rightarrow> setParent_children cs this h1
               | _ \<Rightarrow> (Some TypeError, h1))
         else (None, h1))"

text \<open>
  \<open>setState(state)\<close>: assign the spread, call \<open>setParent\<close>, then \<open>subject.next\<close>. An
  exception of \<open>setParent\<close> leaves the method before \<open>next\<close>.
\<close>

definition setState :: "objid \<Rightarrow> jsobj \<Rightarrow> heap \<Rightarrow> js_exception option \<times> heap" where
  "setState this partial h =
     (let h1 = h(this := (h this)\<lparr>state := spread (state (h this)) partial\<rparr>);
          thrown = fst (setParent this h1);
          h2 = snd (setParent this h1)
      in case thrown of
           Some e \<Rightarrow> (Some e, h2)
         | None \<Rightarrow>
             (None, h2(this := (h2 this)\<lparr>subject := subject_next (state (h2 this)) (subject (h2 this))\<rparr>)))"

text \<open>
  What \<open>setParent\<close> takes for granted when it casts \<open>children\<close> to an array of scene
  items: the field is missing or falsy, or it is an array whose elements can take a
  property.
\<close>

fun assignable :: "jsval \<Rightarrow> bool" where
  "assignable (Item target) = True"
| "assignable (Arr vs) = True"
| "assignable v = False"

definition children_iterable :: "jsobj \<Rightarrow> bool" where
  "children_iterable st =
     (case get_prop st ''children'' of
        Arr cs \<Rightarrow> list_all assignable cs
      | v \<Rightarrow> \<not> truthy v)"

text \<open>\<open>subscribe(observer)\<close> passes the observer to the subject.\<close>

definition subscribe :: "objid \<Rightarrow> heap \<Rightarrow> heap" where
  "subscribe this h = h(this := (h this)\<lparr>subject := subject_subscribe (subject (h this))\<rparr>)"

text \<open>
  A heap to run \<open>setState\<close> on: every object is a fresh item with an empty state,
  except object 0, a layout with one child (object 1), a title, and one observer,
  and object 2, an item that counts its children in a field \<open>children\<close> of type
  number, with one observer.
\<close>

definition blank_item :: SceneItemBase where
  "blank_item =
     \<lparr>subject = \<lparr>buffer = [[]], observers = []\<rparr>, state = [], parent = None, isMounted = None\<rparr>"

definition layout_state :: jsobj where
  "layout_state = [(''title'', Str ''Scene''), (''children'', Arr [Item 1])]"

definition example_heap :: heap where
  "example_heap =
     (\<lambda>obj. blank_item)
       (0 := \<lparr>subject = \<lparr>buffer = [layout_state], observers = [[layout_state]]\<rparr>,
               state = layout_state, parent = None, isMounted = None\<rparr>,
        1 := blank_item\<lparr>parent := Some 0\<rparr>,
        2 := \<lparr>subject = \<lparr>buffer = [[(''children'', Num 0)]],
                            observers = [[[(''children'', Num 0)]]]\<rparr>,
               state = [(''children'', Num 0)], parent = None, isMounted = None\<rparr>)"

section \<open>Rendering a dashboard: \<open>renderDashboard\<close>\<close>

text \<open>
  \<open>strings.Index(s, substr)\<close> of Go's standard library: the index of the first instance
  of \<open>substr\<close> in \<open>s\<close>, or \<open>-1\<close> when there is none. Go strings are byte sequences, as
  \<open>string\<close> is here.
\<close>

fun Index_from :: "nat \<Rightarrow> string \<Rightarrow> string \<Rightarrow> int" where
  "Index_from i [] substr = (if substr = [] then int i else - 1)"
| "Index_from i (ch # rest) substr =
     (if prefix substr (ch # rest) then int i else Index_from (Suc i) rest substr)"

definition Index :: "string \<Rightarrow> string \<Rightarrow> int" where
  "Index s substr = Index_from 0 s substr"

text \<open>The slice expression \<open>s[low:]\<close>: a panic when \<open>low\<close> is outside \<open>0 .. len(s)\<close>.\<close>

datatype slice_panic = SliceBoundsOutOfRange int nat

definition slice_from :: "string \<Rightarrow> int \<Rightarrow> slice_panic + string" where
  "slice_from s low =
     (if low < 0 \<or> int (length s) < low then Inl (SliceBoundsOutOfRange low (length s))
      else Inr (drop (nat low) s))"

text \<open>
  The options that \<open>renderDashboard\<close> sets in \<open>rendering.Opts\<close>, and the two constants it
  takes from other packages. The render service is a value with its method
  \<open>Render\<close>, which gives an error or a result with a file path.
\<close>

datatype RoleType = RoleAdmin

datatype Theme = ThemeDark

record Opts =
  Timeout :: nat
  OrgID :: int
  OrgRole :: RoleType
  Width :: int
  Height :: int
  Path :: string
  ConcurrentLimit :: int
  DeviceScaleFactor :: real
  Theme :: Theme

record RenderResult =
  FilePath :: string

record 'e RenderService =
  Render :: "Opts \<Rightarrow> 'e + RenderResult"

record 'e RenderServer =
  RenderService :: "'e RenderService"
  RendererConcurrentRequestLimit :: int

text \<open>
  The error a call returns: the one made by \<open>fmt.Errorf\<close>, with its message, or the
  one the render service gave. Go compares error values by identity, so the two are
  kept apart by where they were made, whatever message the service chose.
\<close>

datatype 'e go_error = Errorf string | RenderError 'e

text \<open>
  What a call of \<open>renderDashboard\<close> did: the lines written by \<open>fmt.Println\<close>, the
  options of each \<open>Render\<close> call, and the returned pair of path and error (\<open>None\<close> for
  \<open>nil\<close>).
\<close>

record 'e rendered =
  stdout :: "string list"
  render_calls :: "Opts list"
  returned :: "string \<times> 'e go_error option"

definition renderDashboard :: "'e RenderServer \<Rightarrow> string \<Rightarrow> slice_panic + 'e rendered" where
  "renderDashboard hs dashboardURL =
     (let index = Index dashboardURL ''/d/''
      in if index \<noteq> - 1
         then (case slice_from dashboardURL (index + 1) of
                 Inl p \<Rightarrow> Inl p
               | Inr renderPath \<Rightarrow>
                   (let opts = \<lparr>Timeout = 60, OrgID = 1, OrgRole = RoleAdmin,
                                 Width = 1600, Height = 800, Path = renderPath,
                                 ConcurrentLimit = RendererConcurrentRequestLimit hs,
                                 DeviceScaleFactor = 1, Theme = ThemeDark\<rparr>
                    in case Render (RenderService hs) opts of
                         Inl err \<Rightarrow>
                           Inr \<lparr>stdout = [renderPath], render_calls = [opts],
                                returned = ([], Some (RenderError err))\<rparr>
                       | Inr result \<Rightarrow>
                           Inr \<lparr>stdout = [renderPath], render_calls = [opts],
                                returned = (FilePath result, None)\<rparr>))
         else Inr \<lparr>stdout = [], render_calls = [],
                   returned = ([], Some (Errorf ''Invalid dashboard url''))\<rparr>)"

text \<open>
  A server whose render service reads what it is given: it renders a path that
  begins with \<open>d/\<close> into a file named after the path, and fails on any other path.
\<close>

definition example_renderer :: "string RenderServer" where
  "example_renderer =
     \<lparr>RenderService =
        \<lparr>Render = (\<lambda>opts. if prefix ''d/'' (Path opts)
                           then Inr \<lparr>FilePath = ''/img/'' @ Path opts @ ''.png''\<rparr>
                           else Inl (''no dashboard at '' @ Path opts))\<rparr>,
      RendererConcurrentRequestLimit = 30\<rparr>"

section \<open>Properties of the recipe handlers\<close>

subsection \<open>The loops\<close>

lemma snd_invoke_Apply:
  "snd (invoke_Apply s c r) =
     snd r @ [\<lparr>Method = MApply, Callee = s, Outcome = fst (Apply s c (fst r))\<rparr>]"
  by (simp add: invoke_Apply_def split: prod.splits)

lemma snd_invoke_Revert:
  "snd (invoke_Revert s c r) =
     snd r @ [\<lparr>Method = MRevert, Callee = s, Outcome = fst (Revert s c (fst r))\<rparr>]"
  by (simp add: invoke_Revert_def split: prod.splits)

lemma GetRecipeList_range_fills:
  "i + length rs \<le> length dtos \<Longrightarrow>
   GetRecipeList_range c w i rs dtos =
     take i dtos @ map (\<lambda>r. Some (ToDto r c w)) rs @ drop (i + length rs) dtos"
proof (induction rs arbitrary: i dtos)
  case Nil
  then show ?case by simp
next
  case (Cons r rs)
  then show ?case
    by (simp add: take_Suc_conv_app_nth)
qed

lemma InstallRecipe_go_invoked:
  "invoked (snd (InstallRecipe_go steps c r)) = invoked (snd r) @ map (Pair MApply) steps"
  by (induction steps arbitrary: r) (simp_all add: invoke_Apply_def invoked_def split: prod.splits)

lemma UninstallRecipe_range_invoked:
  "invoked (snd (UninstallRecipe_range steps c r)) = invoked (snd r) @ map (Pair MRevert) steps"
  by (induction steps arbitrary: r) (simp_all add: invoke_Revert_def invoked_def split: prod.splits)

lemma InstallRecipe_go_append:
  "InstallRecipe_go (xs @ ys) c r = InstallRecipe_go ys c (InstallRecipe_go xs c r)"
  by (induction xs arbitrary: r) simp_all

lemma UninstallRecipe_range_append:
  "UninstallRecipe_range (xs @ ys) c r = UninstallRecipe_range ys c (UninstallRecipe_range xs c r)"
  by (induction xs arbitrary: r) simp_all

lemma InstallRecipe_go_extends:
  "\<exists>ks. snd (InstallRecipe_go steps c r) = snd r @ ks \<and> length ks = length steps"
proof (induction steps arbitrary: r)
  case Nil
  show ?case by simp
next
  case (Cons s steps)
  obtain ks where ks: "snd (InstallRecipe_go steps c (invoke_Apply s c r)) = snd (invoke_Apply s c r) @ ks"
    "length ks = length steps"
    using Cons.IH by blast
  have k: "snd (invoke_Apply s c r) =
      snd r @ [\<lparr>Method = MApply, Callee = s, Outcome = fst (Apply s c (fst r))\<rparr>]"
    by (rule snd_invoke_Apply)
  show ?case using ks k by simp
qed

lemma UninstallRecipe_range_extends:
  "\<exists>ks. snd (UninstallRecipe_range steps c r) = snd r @ ks \<and> length ks = length steps"
proof (induction steps arbitrary: r)
  case Nil
  show ?case by simp
next
  case (Cons s steps)
  obtain ks where ks: "snd (UninstallRecipe_range steps c (invoke_Revert s c r)) = snd (invoke_Revert s c r) @ ks"
    "length ks = length steps"
    using Cons.IH by blast
  have k: "snd (invoke_Revert s c r) =
      snd r @ [\<lparr>Method = MRevert, Callee = s, Outcome = fst (Revert s c (fst r))\<rparr>]"
    by (rule snd_invoke_Revert)
  show ?case using ks k by simp
qed

lemma InstallRecipe_go_nth:
  assumes "i < length steps"
  shows "snd (InstallRecipe_go steps c r) ! (length (snd r) + i) =
           \<lparr>Method = MApply, Callee = steps ! i,
            Outcome = fst (Apply (steps ! i) c (fst (InstallRecipe_go (take i steps) c r)))\<rparr>"
proof -
  let ?r1 = "InstallRecipe_go (take i steps) c r"
  let ?r2 = "invoke_Apply (steps ! i) c ?r1"
  have split: "steps = take i steps @ steps ! i # drop (Suc i) steps"
    using assms by (simp add: id_take_nth_drop)
  have "InstallRecipe_go steps c r = InstallRecipe_go (take i steps @ steps ! i # drop (Suc i) steps) c r"
    using split by simp
  then have run: "InstallRecipe_go steps c r = InstallRecipe_go (drop (Suc i) steps) c ?r2"
    by (simp add: InstallRecipe_go_append)
  obtain k1 where k1: "snd ?r1 = snd r @ k1" "length k1 = length (take i steps)"
    using InstallRecipe_go_extends by blast
  have len1: "length k1 = i" using k1(2) assms by simp
  have r2: "snd ?r2 = snd ?r1 @ [\<lparr>Method = MApply, Callee = steps ! i,
            Outcome = fst (Apply (steps ! i) c (fst ?r1))\<rparr>]"
    by (rule snd_invoke_Apply)
  obtain k3 where k3: "snd (InstallRecipe_go (drop (Suc i) steps) c ?r2) = snd ?r2 @ k3"
    using InstallRecipe_go_extends by blast
  show ?thesis
    using run k1(1) len1 r2 k3 by (simp add: nth_append)
qed

lemma UninstallRecipe_range_nth:
  assumes "i < length steps"
  shows "snd (UninstallRecipe_range steps c r) ! (length (snd r) + i) =
           \<lparr>Method = MRevert, Callee = steps ! i,
            Outcome = fst (Revert (steps ! i) c (fst (UninstallRecipe_range (take i steps) c r)))\<rparr>"
proof -
  let ?r1 = "UninstallRecipe_range (take i steps) c r"
  let ?r2 = "invoke_Revert (steps ! i) c ?r1"
  have split: "steps = take i steps @ steps ! i # drop (Suc i) steps"
    using assms by (simp add: id_take_nth_drop)
  have "UninstallRecipe_range steps c r = UninstallRecipe_range (take i steps @ steps ! i # drop (Suc i) steps) c r"
    using split by simp
  then have run: "UninstallRecipe_range steps c r = UninstallRecipe_range (drop (Suc i) steps) c ?r2"
    by (simp add: UninstallRecipe_range_append)
  obtain k1 where k1: "snd ?r1 = snd r @ k1" "length k1 = length (take i steps)"
    using UninstallRecipe_range_extends by blast
  have len1: "length k1 = i" using k1(2) assms by simp
  have r2: "snd ?r2 = snd ?r1 @ [\<lparr>Method = MRevert, Callee = steps ! i,
            Outcome = fst (Revert (steps ! i) c (fst ?r1))\<rparr>]"
    by (rule snd_invoke_Revert)
  obtain k3 where k3: "snd (UninstallRecipe_range (drop (Suc i) steps) c ?r2) = snd ?r2 @ k3"
    using UninstallRecipe_range_extends by blast
  show ?thesis
    using run k1(1) len1 r2 k3 by (simp add: nth_append)
qed

lemma InstallRecipe_go_length:
  "length (snd (InstallRecipe_go steps c r)) = length (snd r) + length steps"
  using InstallRecipe_go_extends [of steps c r] by auto

lemma UninstallRecipe_range_length:
  "length (snd (UninstallRecipe_range steps c r)) = length (snd r) + length steps"
  using UninstallRecipe_range_extends [of steps c r] by auto

lemma example_enable_foo_registered:
  "GetById (recipeProvider example_hs) (param (recipe_request ''enable-foo'') '':recipeId'') =
     Some enable_foo"
  by (simp add: example_hs_def param_def recipe_request_def)

lemma InstallPlugin_foo_neq_EnableFeatureFlag:
  "InstallPlugin ''foo'' \<noteq> EnableFeatureFlag ''foo-ui''"
proof
  assume "InstallPlugin ''foo'' = EnableFeatureFlag ''foo-ui''"
  then have "StepToDto (InstallPlugin ''foo'') \<lparr>Params = Map.empty\<rparr> [] =
             StepToDto (EnableFeatureFlag ''foo-ui'') \<lparr>Params = Map.empty\<rparr> []"
    by simp
  then show False by (simp add: InstallPlugin_def EnableFeatureFlag_def)
qed

subsection \<open>Listing\<close>

text \<open>
  C8: \<open>GetRecipeList\<close> answers 200 with one DTO for each recipe that \<open>GetAll\<close> returned,
  in the order of \<open>GetAll\<close>; the DTO at a position is \<open>ToDto\<close> of the recipe at that
  position, and no slot of the slice is left \<open>nil\<close>.
\<close>

theorem GetRecipeList_one_dto_per_recipe:
  "GetRecipeList hs c w =
     JSON StatusOK (RecipeList (map (\<lambda>r. Some (ToDto r c w)) (GetAll (recipeProvider hs))))"
  by (simp add: GetRecipeList_def GetRecipeList_range_fills)

subsection \<open>Installing and uninstalling\<close>

text \<open>
  C6: for a registered recipe, the goroutine that \<open>InstallRecipe\<close> starts invokes
  \<open>Apply\<close> on every step once, first on \<open>Steps[0]\<close> and last on the last step: what it
  adds to the journal is exactly one \<open>Apply\<close> entry per step, in the order of \<open>Steps\<close>.
\<close>

theorem InstallRecipe_applies_steps_ascending:
  assumes "GetById (recipeProvider hs) (param c '':recipeId'') = Some recipe"
  shows "invoked (snd (spawned_run (snd (InstallRecipe hs c w)) (w0, js))) =
           invoked js @ map (Pair MApply) (Steps recipe)"
  using assms by (simp add: InstallRecipe_def spawned_run_def InstallRecipe_go_invoked)

theorem InstallRecipe_applies_steps_ascending_witness:
  "GetById (recipeProvider example_hs) (param (recipe_request ''enable-foo'') '':recipeId'') = Some enable_foo
   \<and> invoked (snd (spawned_run (snd (InstallRecipe example_hs (recipe_request ''enable-foo'') [])) ([], [])))
       = [(MApply, InstallPlugin ''foo''), (MApply, EnableFeatureFlag ''foo-ui'')]
   \<and> fst (spawned_run (snd (InstallRecipe example_hs (recipe_request ''enable-foo'') [])) ([], []))
       = [''plugin:foo'', ''flag:foo-ui'']"
proof -
  have h: "GetById (recipeProvider example_hs) (param (recipe_request ''enable-foo'') '':recipeId'') = Some enable_foo"
    by (simp add: example_hs_def param_def recipe_request_def)
  have w: "fst (spawned_run (snd (InstallRecipe example_hs (recipe_request ''enable-foo'') [])) ([], []))
       = [''plugin:foo'', ''flag:foo-ui'']"
    by (simp add: InstallRecipe_def Let_def spawned_run_def example_hs_def param_def recipe_request_def
        enable_foo_def recipe_of_def invoke_Apply_def EnableFeatureFlag_def InstallPlugin_def)
  show ?thesis
    using h w InstallRecipe_applies_steps_ascending [OF h, of "[]" "[]" "[]"]
    by (simp add: invoked_def enable_foo_def recipe_of_def)
qed

text \<open>
  C3 (as the code has it): for a registered recipe, the goroutine that
  \<open>UninstallRecipe\<close> starts invokes \<open>Revert\<close> on every step once, in ascending index
  order, the order in which \<open>InstallRecipe\<close> applies them.
\<close>

theorem UninstallRecipe_reverts_steps_ascending:
  assumes "GetById (recipeProvider hs) (param c '':recipeId'') = Some recipe"
  shows "invoked (snd (spawned_run (snd (UninstallRecipe hs c w)) (w0, js))) =
           invoked js @ map (Pair MRevert) (Steps recipe)"
  using assms
  by (simp add: UninstallRecipe_def UninstallRecipe_go_def spawned_run_def UninstallRecipe_range_invoked)

theorem UninstallRecipe_reverts_steps_ascending_witness:
  "GetById (recipeProvider example_hs) (param (recipe_request ''enable-foo'') '':recipeId'') = Some enable_foo
   \<and> invoked (snd (spawned_run (snd (UninstallRecipe example_hs (recipe_request ''enable-foo'') []))
                      ([''plugin:foo'', ''flag:foo-ui''], [])))
       = [(MRevert, InstallPlugin ''foo''), (MRevert, EnableFeatureFlag ''foo-ui'')]"
  using example_enable_foo_registered
    UninstallRecipe_reverts_steps_ascending [OF example_enable_foo_registered,
      of "[]" "[''plugin:foo'', ''flag:foo-ui'']" "[]"]
  by (simp add: invoked_def enable_foo_def recipe_of_def)

text \<open>
  The claim C3 as it was stated, descending order, fails on the two-step recipe
  \<open>enable-foo\<close>: the calls are not those on the reversed list of steps.
\<close>

theorem UninstallRecipe_descending_counterexample:
  "invoked (snd (spawned_run (snd (UninstallRecipe example_hs (recipe_request ''enable-foo'') []))
                  ([''plugin:foo'', ''flag:foo-ui''], [])))
     \<noteq> map (Pair MRevert) (rev (Steps enable_foo))"
proof -
  have "invoked (snd (spawned_run (snd (UninstallRecipe example_hs (recipe_request ''enable-foo'') []))
                  ([''plugin:foo'', ''flag:foo-ui''], [])))
        = [(MRevert, InstallPlugin ''foo''), (MRevert, EnableFeatureFlag ''foo-ui'')]"
    using example_enable_foo_registered
    by (simp add: UninstallRecipe_def UninstallRecipe_go_def spawned_run_def snd_invoke_Revert
        invoked_def enable_foo_def recipe_of_def)
  then show ?thesis
    using InstallPlugin_foo_neq_EnableFeatureFlag by (simp add: enable_foo_def recipe_of_def)
qed

text \<open>
  C4: in both whole-recipe paths every step is invoked, whatever the steps before it
  returned. The journal of the goroutine has one entry per step; entry \<open>i\<close> is a call
  on step \<open>i\<close>, with the outcome that step gave in the world the earlier steps left,
  failed or not.
\<close>

theorem whole_recipe_no_short_circuit:
  assumes "GetById (recipeProvider hs) (param c '':recipeId'') = Some recipe"
  shows "length (snd (spawned_run (snd (InstallRecipe hs c w)) (w0, []))) = length (Steps recipe)
       \<and> length (snd (spawned_run (snd (UninstallRecipe hs c w)) (w0, []))) = length (Steps recipe)
       \<and> (\<forall>i<length (Steps recipe).
           snd (spawned_run (snd (InstallRecipe hs c w)) (w0, [])) ! i =
             \<lparr>Method = MApply, Callee = Steps recipe ! i,
              Outcome = fst (Apply (Steps recipe ! i) c
                          (fst (InstallRecipe_go (take i (Steps recipe)) c (w0, []))))\<rparr>)
       \<and> (\<forall>i<length (Steps recipe).
           snd (spawned_run (snd (UninstallRecipe hs c w)) (w0, [])) ! i =
             \<lparr>Method = MRevert, Callee = Steps recipe ! i,
              Outcome = fst (Revert (Steps recipe ! i) c
                          (fst (UninstallRecipe_range (take i (Steps recipe)) c (w0, []))))\<rparr>)"
proof -
  have a: "length (snd (spawned_run (snd (InstallRecipe hs c w)) (w0, []))) = length (Steps recipe)"
    using assms by (simp add: InstallRecipe_def spawned_run_def InstallRecipe_go_length)
  have b: "length (snd (spawned_run (snd (UninstallRecipe hs c w)) (w0, []))) = length (Steps recipe)"
    using assms
    by (simp add: UninstallRecipe_def UninstallRecipe_go_def spawned_run_def UninstallRecipe_range_length)
  have d: "\<forall>i<length (Steps recipe).
           snd (spawned_run (snd (InstallRecipe hs c w)) (w0, [])) ! i =
             \<lparr>Method = MApply, Callee = Steps recipe ! i,
              Outcome = fst (Apply (Steps recipe ! i) c
                          (fst (InstallRecipe_go (take i (Steps recipe)) c (w0, []))))\<rparr>"
    using assms InstallRecipe_go_nth [of _ "Steps recipe" c "(w0, [])"]
    by (simp add: InstallRecipe_def spawned_run_def)
  have e: "\<forall>i<length (Steps recipe).
           snd (spawned_run (snd (UninstallRecipe hs c w)) (w0, [])) ! i =
             \<lparr>Method = MRevert, Callee = Steps recipe ! i,
              Outcome = fst (Revert (Steps recipe ! i) c
                          (fst (UninstallRecipe_range (take i (Steps recipe)) c (w0, []))))\<rparr>"
    using assms UninstallRecipe_range_nth [of _ "Steps recipe" c "(w0, [])"]
    by (simp add: UninstallRecipe_def UninstallRecipe_go_def spawned_run_def)
  show ?thesis using a b d e by blast
qed

theorem whole_recipe_no_short_circuit_witness:
  "GetById (recipeProvider example_hs) (param (recipe_request ''shaky'') '':recipeId'') = Some shaky
   \<and> snd (spawned_run (snd (InstallRecipe example_hs (recipe_request ''shaky'') [])) ([], []))
       = [\<lparr>Method = MApply, Callee = BrokenStep, Outcome = StepFailed\<rparr>,
          \<lparr>Method = MApply, Callee = InstallPlugin ''bar'', Outcome = StepOk\<rparr>]
   \<and> snd (spawned_run (snd (UninstallRecipe example_hs (recipe_request ''shaky'') [])) ([], []))
       = [\<lparr>Method = MRevert, Callee = BrokenStep, Outcome = StepFailed\<rparr>,
          \<lparr>Method = MRevert, Callee = InstallPlugin ''bar'', Outcome = StepOk\<rparr>]"
proof -
  have h: "GetById (recipeProvider example_hs) (param (recipe_request ''shaky'') '':recipeId'') = Some shaky"
    by (simp add: example_hs_def param_def recipe_request_def)
  have a: "snd (spawned_run (snd (InstallRecipe example_hs (recipe_request ''shaky'') [])) ([], []))
       = [\<lparr>Method = MApply, Callee = BrokenStep, Outcome = StepFailed\<rparr>,
          \<lparr>Method = MApply, Callee = InstallPlugin ''bar'', Outcome = StepOk\<rparr>]"
    using h
    by (simp add: InstallRecipe_def spawned_run_def shaky_def recipe_of_def snd_invoke_Apply)
       (simp add: invoke_Apply_def BrokenStep_def InstallPlugin_def)
  have b: "snd (spawned_run (snd (UninstallRecipe example_hs (recipe_request ''shaky'') [])) ([], []))
       = [\<lparr>Method = MRevert, Callee = BrokenStep, Outcome = StepFailed\<rparr>,
          \<lparr>Method = MRevert, Callee = InstallPlugin ''bar'', Outcome = StepOk\<rparr>]"
    using h
    by (simp add: UninstallRecipe_def UninstallRecipe_go_def spawned_run_def shaky_def recipe_of_def
          snd_invoke_Revert)
       (simp add: invoke_Revert_def BrokenStep_def InstallPlugin_def)
  show ?thesis
    using h a b whole_recipe_no_short_circuit [OF h, of "[]" "[]"] by blast
qed

subsection \<open>Looking a recipe up\<close>

text \<open>
  C5: \<open>GetRecipeByID\<close>, \<open>InstallRecipe\<close> and \<open>UninstallRecipe\<close> answer 404 exactly when
  the provider has no recipe for the identifier of the request (\<open>GetById\<close> gives
  \<open>nil\<close>); when it has one, each of them answers 200 with the DTO of that recipe.
\<close>

theorem recipe_404_iff_unregistered:
  "(Status (GetRecipeByID hs c w) = StatusNotFound \<longleftrightarrow>
      GetById (recipeProvider hs) (param c '':recipeId'') = None)
   \<and> (Status (fst (InstallRecipe hs c w)) = StatusNotFound \<longleftrightarrow>
      GetById (recipeProvider hs) (param c '':recipeId'') = None)
   \<and> (Status (fst (UninstallRecipe hs c w)) = StatusNotFound \<longleftrightarrow>
      GetById (recipeProvider hs) (param c '':recipeId'') = None)
   \<and> (\<forall>recipe. GetById (recipeProvider hs) (param c '':recipeId'') = Some recipe \<longrightarrow>
          GetRecipeByID hs c w = JSON StatusOK (RecipeBody (ToDto recipe c w))
        \<and> fst (InstallRecipe hs c w) = JSON StatusOK (RecipeBody (ToDto recipe c w))
        \<and> fst (UninstallRecipe hs c w) = JSON StatusOK (RecipeBody (ToDto recipe c w)))"
  by (simp add: GetRecipeByID_def InstallRecipe_def UninstallRecipe_def Let_def
      StatusNotFound_def StatusOK_def split: option.splits)

theorem recipe_404_iff_unregistered_witness:
  "GetById (recipeProvider example_hs) (param (recipe_request ''enable-foo'') '':recipeId'') = Some enable_foo
   \<and> GetRecipeByID example_hs (recipe_request ''enable-foo'') [''plugin:foo''] =
        JSON 200 (RecipeBody (''enable-foo'', [(''plugin:foo'', True), (''flag:foo-ui'', False)]))
   \<and> fst (InstallRecipe example_hs (recipe_request ''enable-foo'') [''plugin:foo'']) =
        JSON 200 (RecipeBody (''enable-foo'', [(''plugin:foo'', True), (''flag:foo-ui'', False)]))
   \<and> GetById (recipeProvider example_hs) (param (recipe_request ''enable-bar'') '':recipeId'') = None
   \<and> Status (GetRecipeByID example_hs (recipe_request ''enable-bar'') [''plugin:foo'']) = 404"
proof -
  have r: "GetById (recipeProvider example_hs) (param (recipe_request ''enable-foo'') '':recipeId'') = Some enable_foo"
    by (simp add: example_hs_def param_def recipe_request_def)
  have n: "GetById (recipeProvider example_hs) (param (recipe_request ''enable-bar'') '':recipeId'') = None"
    by (simp add: example_hs_def param_def recipe_request_def)
  have d: "ToDto enable_foo (recipe_request ''enable-foo'') [''plugin:foo''] =
      (''enable-foo'', [(''plugin:foo'', True), (''flag:foo-ui'', False)])"
    by (simp add: enable_foo_def recipe_of_def InstallPlugin_def EnableFeatureFlag_def)
  show ?thesis
    using r n d
      recipe_404_iff_unregistered [of example_hs "recipe_request ''enable-foo''" "[''plugin:foo'']"]
      recipe_404_iff_unregistered [of example_hs "recipe_request ''enable-bar''" "[''plugin:foo'']"]
    by (simp add: StatusOK_def StatusNotFound_def)
qed

subsection \<open>Single steps\<close>

text \<open>
  What the two handlers do with the step number, for every request: the answer is
  the 400 of the error branch exactly when \<open>Atoi\<close> returned no error, and the handler
  panics exactly when \<open>Atoi\<close> returned an error, the recipe exists, and the number
  that came with the error is no index of \<open>Steps\<close>.
\<close>

lemma ApplyRecipeStep_BadRequest_iff:
  "(\<exists>r'. ApplyRecipeStep hs c r = Inr (Error StatusBadRequest ''The step number needs to be an number'', r'))
     \<longleftrightarrow> snd (Atoi (param c '':stepNumber'')) = None"
  by (auto simp: ApplyRecipeStep_def Let_def StatusBadRequest_def StatusNotFound_def StatusOK_def
      split: option.splits sum.splits)

lemma RevertRecipeStep_BadRequest_iff:
  "(\<exists>r'. RevertRecipeStep hs c r = Inr (Error StatusBadRequest ''The step number needs to be an number'', r'))
     \<longleftrightarrow> snd (Atoi (param c '':stepNumber'')) = None"
  by (auto simp: RevertRecipeStep_def Let_def StatusBadRequest_def StatusNotFound_def StatusOK_def
      split: option.splits sum.splits)

lemma ApplyRecipeStep_panics_iff:
  "(\<exists>p. ApplyRecipeStep hs c r = Inl p) \<longleftrightarrow>
     snd (Atoi (param c '':stepNumber'')) \<noteq> None
     \<and> (\<exists>recipe. GetById (recipeProvider hs) (param c '':recipeId'') = Some recipe
          \<and> (fst (Atoi (param c '':stepNumber'')) < 0
             \<or> int (length (Steps recipe)) \<le> fst (Atoi (param c '':stepNumber''))))"
  by (auto simp: ApplyRecipeStep_def Let_def index_Steps_def split: option.splits sum.splits if_splits)

lemma RevertRecipeStep_panics_iff:
  "(\<exists>p. RevertRecipeStep hs c r = Inl p) \<longleftrightarrow>
     snd (Atoi (param c '':stepNumber'')) \<noteq> None
     \<and> (\<exists>recipe. GetById (recipeProvider hs) (param c '':recipeId'') = Some recipe
          \<and> (fst (Atoi (param c '':stepNumber'')) < 0
             \<or> int (length (Steps recipe)) \<le> fst (Atoi (param c '':stepNumber''))))"
  by (auto simp: RevertRecipeStep_def Let_def index_Steps_def split: option.splits sum.splits if_splits)

text \<open>
  C2 (the code at two requests): with the step number \<open>1\<close>, which \<open>Atoi\<close> parses, both
  handlers answer 400 and touch no step; with the step number \<open>one\<close>, which \<open>Atoi\<close>
  rejects, both go on with the number 0 and apply or revert the first step of the
  recipe.
\<close>

theorem numeric_step_number_is_rejected:
  "Atoi ''1'' = (1, None)
   \<and> ApplyRecipeStep example_hs (step_request ''enable-foo'' ''1'') ([], []) =
       Inr (Error 400 ''The step number needs to be an number'', ([], []))
   \<and> RevertRecipeStep example_hs (step_request ''enable-foo'' ''1'') ([], []) =
       Inr (Error 400 ''The step number needs to be an number'', ([], []))
   \<and> Atoi ''one'' = (0, Some ErrSyntax)
   \<and> ApplyRecipeStep example_hs (step_request ''enable-foo'' ''one'') ([], []) =
       Inr (JSON 200 (StepBody (''plugin:foo'', True)),
            ([''plugin:foo''], [\<lparr>Method = MApply, Callee = InstallPlugin ''foo'', Outcome = StepOk\<rparr>]))
   \<and> RevertRecipeStep example_hs (step_request ''enable-foo'' ''one'') ([''plugin:foo''], []) =
       Inr (JSON 200 (StepBody (''plugin:foo'', False)),
            ([], [\<lparr>Method = MRevert, Callee = InstallPlugin ''foo'', Outcome = StepOk\<rparr>]))"
proof -
  have a: "Atoi ''1'' = (1, None)"
    by (simp add: Atoi_def byte_def)
  have b: "Atoi ''one'' = (0, Some ErrSyntax)"
    by (simp add: Atoi_def byte_def)
  have s0: "index_Steps enable_foo 0 = Inr (InstallPlugin ''foo'')"
    by (simp add: index_Steps_def enable_foo_def recipe_of_def)
  have p: "ApplyRecipeStep example_hs (step_request ''enable-foo'' ''1'') ([], []) =
       Inr (Error 400 ''The step number needs to be an number'', ([], []))"
    by (simp add: ApplyRecipeStep_def Let_def param_def step_request_def a StatusBadRequest_def)
  have q: "RevertRecipeStep example_hs (step_request ''enable-foo'' ''1'') ([], []) =
       Inr (Error 400 ''The step number needs to be an number'', ([], []))"
    by (simp add: RevertRecipeStep_def Let_def param_def step_request_def a StatusBadRequest_def)
  have r: "ApplyRecipeStep example_hs (step_request ''enable-foo'' ''one'') ([], []) =
       Inr (JSON 200 (StepBody (''plugin:foo'', True)),
            ([''plugin:foo''], [\<lparr>Method = MApply, Callee = InstallPlugin ''foo'', Outcome = StepOk\<rparr>]))"
    by (simp add: ApplyRecipeStep_def Let_def param_def step_request_def b example_hs_def s0
        StatusOK_def invoke_Apply_def)
       (simp add: InstallPlugin_def)
  have t: "RevertRecipeStep example_hs (step_request ''enable-foo'' ''one'') ([''plugin:foo''], []) =
       Inr (JSON 200 (StepBody (''plugin:foo'', False)),
            ([], [\<lparr>Method = MRevert, Callee = InstallPlugin ''foo'', Outcome = StepOk\<rparr>]))"
    by (simp add: RevertRecipeStep_def Let_def param_def step_request_def b example_hs_def s0
        StatusOK_def invoke_Revert_def)
       (simp add: InstallPlugin_def)
  show ?thesis using a b p q r t by blast
qed

text \<open>
  C1 (the code at an index no recipe has): the step number \<open>9223372036854775808\<close> is an
  integer outside the bounds of every \<open>Steps\<close>. \<open>Atoi\<close> returns the largest \<open>int\<close> with a
  range error, the handlers go on, and the slice read panics; likewise below the
  smallest \<open>int\<close>.
\<close>

theorem step_number_out_of_int_range_panics:
  "Atoi ''9223372036854775808'' = (9223372036854775807, Some ErrRange)
   \<and> ApplyRecipeStep example_hs (step_request ''enable-foo'' ''9223372036854775808'') ([], []) =
       Inl (IndexOutOfRange 9223372036854775807 2)
   \<and> RevertRecipeStep example_hs (step_request ''enable-foo'' ''9223372036854775808'') ([], []) =
       Inl (IndexOutOfRange 9223372036854775807 2)
   \<and> Atoi ''-9223372036854775809'' = (- 9223372036854775808, Some ErrRange)
   \<and> ApplyRecipeStep example_hs (step_request ''enable-foo'' ''-9223372036854775809'') ([], []) =
       Inl (IndexOutOfRange (- 9223372036854775808) 2)"
proof -
  have a: "Atoi ''9223372036854775808'' = (9223372036854775807, Some ErrRange)"
    by (simp add: Atoi_def ParseInt_def ParseUint_def byte_def maxUint64_def intSize_def)
  have b: "Atoi ''-9223372036854775809'' = (- 9223372036854775808, Some ErrRange)"
    by (simp add: Atoi_def ParseInt_def ParseUint_def byte_def maxUint64_def intSize_def)
  have p: "ApplyRecipeStep example_hs (step_request ''enable-foo'' ''9223372036854775808'') ([], []) =
       Inl (IndexOutOfRange 9223372036854775807 2)"
    by (simp add: ApplyRecipeStep_def Let_def param_def step_request_def a example_hs_def
        index_Steps_def enable_foo_def recipe_of_def)
  have q: "RevertRecipeStep example_hs (step_request ''enable-foo'' ''9223372036854775808'') ([], []) =
       Inl (IndexOutOfRange 9223372036854775807 2)"
    by (simp add: RevertRecipeStep_def Let_def param_def step_request_def a example_hs_def
        index_Steps_def enable_foo_def recipe_of_def)
  have r: "ApplyRecipeStep example_hs (step_request ''enable-foo'' ''-9223372036854775809'') ([], []) =
       Inl (IndexOutOfRange (- 9223372036854775808) 2)"
    by (simp add: ApplyRecipeStep_def Let_def param_def step_request_def b example_hs_def
        index_Steps_def enable_foo_def recipe_of_def)
  show ?thesis using a b p q r by blast
qed

section \<open>Properties of \<open>setState\<close>\<close>

subsection \<open>The spread\<close>

lemma map_of_spread_other:
  "key \<notin> fst ` set b \<Longrightarrow> map_of (spread a b) key = map_of a key"
  unfolding spread_def
  by (induction b arbitrary: a) (auto simp: update_conv')

lemma map_of_spread_named:
  "distinct (map fst b) \<Longrightarrow> map_of b key = Some v \<Longrightarrow> map_of (spread a b) key = Some v"
proof (induction b arbitrary: a)
  case Nil
  then show ?case by simp
next
  case (Cons kv b)
  show ?case
  proof (cases "fst kv = key")
    case True
    then have v: "snd kv = v" using Cons.prems(2) by (cases kv) auto
    have "key \<notin> fst ` set b" using Cons.prems(1) True by auto
    then have "map_of (spread (AList.update (fst kv) (snd kv) a) b) key =
        map_of (AList.update (fst kv) (snd kv) a) key"
      by (rule map_of_spread_other)
    then show ?thesis using True v by (simp add: spread_def update_conv')
  next
    case False
    then have "map_of b key = Some v" using Cons.prems(2) by (cases kv) auto
    moreover have "distinct (map fst b)" using Cons.prems(1) by simp
    ultimately have "map_of (spread (AList.update (fst kv) (snd kv) a) b) key = Some v"
      by (rule Cons.IH [rotated])
    then show ?thesis by (simp add: spread_def)
  qed
qed

subsection \<open>\<open>setParent\<close> writes parents only\<close>

lemma assign_parent_state [simp]: "state (assign_parent target this h obj) = state (h obj)"
  by (simp add: assign_parent_def)

lemma assign_parent_subject [simp]: "subject (assign_parent target this h obj) = subject (h obj)"
  by (simp add: assign_parent_def)

lemma setParent_values_state [simp]:
  "state (setParent_values vs this h obj) = state (h obj)"
  by (induction vs this h rule: setParent_values.induct) simp_all

lemma setParent_values_subject [simp]:
  "subject (setParent_values vs this h obj) = subject (h obj)"
  by (induction vs this h rule: setParent_values.induct) simp_all

lemma setParent_children_state [simp]:
  "state (snd (setParent_children cs this h) obj) = state (h obj)"
  by (induction cs this h rule: setParent_children.induct) simp_all

lemma setParent_children_subject [simp]:
  "subject (snd (setParent_children cs this h) obj) = subject (h obj)"
  by (induction cs this h rule: setParent_children.induct) simp_all

lemma setParent_children_thrown:
  "fst (setParent_children cs this h) = (if list_all assignable cs then None else Some TypeError)"
  by (induction cs this h rule: setParent_children.induct) simp_all

lemma setParent_state [simp]: "state (snd (setParent this h) obj) = state (h obj)"
  by (simp add: setParent_def Let_def split: jsval.splits)

lemma setParent_subject [simp]: "subject (snd (setParent this h) obj) = subject (h obj)"
  by (simp add: setParent_def Let_def split: jsval.splits)

lemma setParent_thrown:
  "fst (setParent this h) = (if children_iterable (state (h this)) then None else Some TypeError)"
  by (simp add: setParent_def Let_def children_iterable_def setParent_children_thrown
      split: jsval.splits)

subsection \<open>\<open>setState\<close>\<close>

lemma setState_state:
  "state (snd (setState this partial h) this) = spread (state (h this)) partial"
  by (simp add: setState_def Let_def split: option.splits)

lemma setState_thrown:
  "fst (setState this partial h) =
     (if children_iterable (spread (state (h this)) partial) then None else Some TypeError)"
  by (simp add: setState_def Let_def setParent_thrown split: option.splits)

lemma setState_subject:
  "subject (snd (setState this partial h) this) =
     (if children_iterable (spread (state (h this)) partial)
      then subject_next (spread (state (h this)) partial) (subject (h this))
      else subject (h this))"
  by (simp add: setState_def Let_def setParent_thrown split: option.splits)

text \<open>
  C9 (as the code has it): for every scene item and every partial state \<open>p\<close> (an
  object, so no key twice), \<open>setState(p)\<close> gives every field named in \<open>p\<close> the value \<open>p\<close>
  has for it and leaves every other field as it was. When \<open>children\<close> of the merged
  state is missing, falsy or an array of objects, \<open>setParent\<close> completes, and the merged
  state is stored in the subject and handed to every subscriber as its next value.
\<close>

theorem setState_merges_and_emits:
  assumes "distinct (map fst partial)"
  shows "(\<forall>key v. map_of partial key = Some v \<longrightarrow>
            map_of (state (snd (setState this partial h) this)) key = Some v)
       \<and> (\<forall>key. map_of partial key = None \<longrightarrow>
            map_of (state (snd (setState this partial h) this)) key = map_of (state (h this)) key)
       \<and> (children_iterable (state (snd (setState this partial h) this)) \<longrightarrow>
            fst (setState this partial h) = None
          \<and> buffer (subject (snd (setState this partial h) this)) =
              buffer (subject (h this)) @ [state (snd (setState this partial h) this)]
          \<and> observers (subject (snd (setState this partial h) this)) =
              map (\<lambda>received. received @ [state (snd (setState this partial h) this)])
                (observers (subject (h this))))"
proof -
  have named: "\<forall>key v. map_of partial key = Some v \<longrightarrow>
            map_of (state (snd (setState this partial h) this)) key = Some v"
    using assms by (simp add: setState_state map_of_spread_named)
  have other: "\<forall>key. map_of partial key = None \<longrightarrow>
            map_of (state (snd (setState this partial h) this)) key = map_of (state (h this)) key"
    by (simp add: setState_state map_of_spread_other map_of_eq_None_iff)
  have emit: "children_iterable (state (snd (setState this partial h) this)) \<longrightarrow>
            fst (setState this partial h) = None
          \<and> buffer (subject (snd (setState this partial h) this)) =
              buffer (subject (h this)) @ [state (snd (setState this partial h) this)]
          \<and> observers (subject (snd (setState this partial h) this)) =
              map (\<lambda>received. received @ [state (snd (setState this partial h) this)])
                (observers (subject (h this)))"
    by (simp add: setState_state setState_thrown setState_subject subject_next_def)
  show ?thesis using named other emit by blast
qed

theorem setState_merges_and_emits_witness:
  "distinct (map fst [(''title'', Str ''Renamed'')])
   \<and> state (snd (setState 0 [(''title'', Str ''Renamed'')] example_heap) 0) =
       [(''title'', Str ''Renamed''), (''children'', Arr [Item 1])]
   \<and> children_iterable (state (snd (setState 0 [(''title'', Str ''Renamed'')] example_heap) 0))
   \<and> fst (setState 0 [(''title'', Str ''Renamed'')] example_heap) = None
   \<and> observers (subject (snd (setState 0 [(''title'', Str ''Renamed'')] example_heap) 0)) =
       [[layout_state, [(''title'', Str ''Renamed''), (''children'', Arr [Item 1])]]]"
proof -
  have d: "distinct (map fst [(''title'', Str ''Renamed'')])" by simp
  have s: "state (snd (setState 0 [(''title'', Str ''Renamed'')] example_heap) 0) =
       [(''title'', Str ''Renamed''), (''children'', Arr [Item 1])]"
    by (simp add: setState_state example_heap_def layout_state_def spread_def)
  have c: "children_iterable [(''title'', Str ''Renamed''), (''children'', Arr [Item 1])]"
    by (simp add: children_iterable_def get_prop_def)
  have o: "observers (subject (example_heap 0)) = [[layout_state]]"
    by (simp add: example_heap_def)
  show ?thesis
    using d s c o setState_merges_and_emits [OF d, of 0 example_heap]
    by simp
qed

text \<open>
  The claim C9 as it was stated, for every partial state, fails on an item whose
  field \<open>children\<close> is a number: after \<open>setState({children: 5})\<close> the state is merged, but
  \<open>setParent\<close> throws on \<open>for (const child of 5)\<close>, \<open>subject.next\<close> is not reached, and the
  subscriber has received nothing new.
\<close>

theorem setState_emits_counterexample:
  "fst (setState 2 [(''children'', Num 5)] example_heap) = Some TypeError
   \<and> state (snd (setState 2 [(''children'', Num 5)] example_heap) 2) = [(''children'', Num 5)]
   \<and> observers (subject (snd (setState 2 [(''children'', Num 5)] example_heap) 2)) =
       [[[(''children'', Num 0)]]]
   \<and> buffer (subject (snd (setState 2 [(''children'', Num 5)] example_heap) 2)) =
       [[(''children'', Num 0)]]"
  by (simp add: setState_state setState_thrown setState_subject example_heap_def spread_def
      children_iterable_def get_prop_def)

section \<open>Properties of \<open>renderDashboard\<close>\<close>

subsection \<open>\<open>strings.Index\<close> finds the first instance\<close>

lemma Index_from_none: "Index_from i s sub = - 1 \<longleftrightarrow> \<not> sublist sub s"
  by (induction s arbitrary: i) (auto simp: sublist_Cons_right)

lemma Index_from_found:
  "Index_from i s sub \<noteq> - 1 \<Longrightarrow>
   \<exists>j. Index_from i s sub = int (i + j) \<and> j \<le> length s \<and> prefix sub (drop j s)
       \<and> (\<forall>k<j. \<not> prefix sub (drop k s))"
proof (induction s arbitrary: i)
  case Nil
  then show ?case by (auto split: if_splits)
next
  case (Cons ch rest)
  show ?case
  proof (cases "prefix sub (ch # rest)")
    case True
    then have "Index_from i (ch # rest) sub = int (i + 0) \<and> 0 \<le> length (ch # rest)
        \<and> prefix sub (drop 0 (ch # rest)) \<and> (\<forall>k<0. \<not> prefix sub (drop k (ch # rest)))"
      by simp
    then show ?thesis by blast
  next
    case False
    then have eq: "Index_from i (ch # rest) sub = Index_from (Suc i) rest sub" by simp
    with Cons.prems have "Index_from (Suc i) rest sub \<noteq> - 1" by simp
    then obtain j where j: "Index_from (Suc i) rest sub = int (Suc i + j)" "j \<le> length rest"
        "prefix sub (drop j rest)" "\<forall>k<j. \<not> prefix sub (drop k rest)"
      using Cons.IH by blast
    have first: "\<forall>k<Suc j. \<not> prefix sub (drop k (ch # rest))"
    proof (intro allI impI)
      fix k assume "k < Suc j"
      then show "\<not> prefix sub (drop k (ch # rest))"
        using False j(4) by (cases k) auto
    qed
    have "Index_from i (ch # rest) sub = int (i + Suc j) \<and> Suc j \<le> length (ch # rest)
        \<and> prefix sub (drop (Suc j) (ch # rest))"
      using eq j by simp
    with first show ?thesis by blast
  qed
qed

lemma Index_found:
  assumes "Index s sub \<noteq> - 1"
  shows "0 \<le> Index s sub \<and> nat (Index s sub) \<le> length s
       \<and> prefix sub (drop (nat (Index s sub)) s)
       \<and> (\<forall>k<nat (Index s sub). \<not> prefix sub (drop k s))"
proof -
  obtain j where j: "Index_from 0 s sub = int (0 + j)" "j \<le> length s" "prefix sub (drop j s)"
      "\<forall>k<j. \<not> prefix sub (drop k s)"
    using Index_from_found [of 0 s sub] assms unfolding Index_def by blast
  then show ?thesis unfolding Index_def by simp
qed

lemma slash_d_slash_path:
  assumes "prefix ''/d/'' (drop j s)"
  shows "int j + 1 \<le> int (length s) \<and> prefix ''d/'' (drop (Suc j) s)"
proof -
  obtain rest where r: "drop j s = ''/d/'' @ rest"
    using assms by (auto simp: prefix_def)
  have "drop (Suc j) s = drop 1 (drop j s)" by simp
  then have d: "drop (Suc j) s = ''d/'' @ rest" using r by simp
  have "length (drop j s) = 3 + length rest" using r by simp
  then have "j + 3 \<le> length s" by simp
  with d show ?thesis by (simp add: prefix_def)
qed

subsection \<open>The path that is rendered\<close>

text \<open>
  C10 (as the code has it): \<open>renderDashboard\<close> never panics. It returns the error
  \<open>Invalid dashboard url\<close> exactly when the URL does not contain \<open>/d/\<close>, and then it
  calls nothing. When the URL contains \<open>/d/\<close>, it calls the render service once, with
  the fixed options and with the path that is the rest of the URL from one byte past
  the index of the first \<open>/d/\<close> (so the path begins with the \<open>d/\<close> of that first \<open>/d/\<close>),
  prints that path, and returns what this one call gave: its file path, or its error.
\<close>

theorem renderDashboard_renders_after_first_slash_d:
  "(\<not> sublist ''/d/'' url \<longrightarrow>
      renderDashboard hs url =
        Inr \<lparr>stdout = [], render_calls = [],
             returned = ([], Some (Errorf ''Invalid dashboard url''))\<rparr>)
   \<and> (sublist ''/d/'' url \<longrightarrow>
        0 \<le> Index url ''/d/''
      \<and> prefix ''/d/'' (drop (nat (Index url ''/d/'')) url)
      \<and> (\<forall>k<nat (Index url ''/d/''). \<not> prefix ''/d/'' (drop k url))
      \<and> prefix ''d/'' (drop (nat (Index url ''/d/'') + 1) url)
      \<and> renderDashboard hs url =
          Inr \<lparr>stdout = [drop (nat (Index url ''/d/'') + 1) url],
               render_calls =
                 [\<lparr>Timeout = 60, OrgID = 1, OrgRole = RoleAdmin, Width = 1600, Height = 800,
                   Path = drop (nat (Index url ''/d/'') + 1) url,
                   ConcurrentLimit = RendererConcurrentRequestLimit hs,
                   DeviceScaleFactor = 1, Theme = ThemeDark\<rparr>],
               returned =
                 (case Render (RenderService hs)
                         \<lparr>Timeout = 60, OrgID = 1, OrgRole = RoleAdmin, Width = 1600,
                          Height = 800, Path = drop (nat (Index url ''/d/'') + 1) url,
                          ConcurrentLimit = RendererConcurrentRequestLimit hs,
                          DeviceScaleFactor = 1, Theme = ThemeDark\<rparr> of
                    Inl err \<Rightarrow> ([], Some (RenderError err))
                  | Inr result \<Rightarrow> (FilePath result, None))\<rparr>)
   \<and> (\<exists>res. renderDashboard hs url = Inr res
        \<and> (returned res = ([], Some (Errorf ''Invalid dashboard url'')) \<longleftrightarrow>
             \<not> sublist ''/d/'' url))"
proof (cases "sublist ''/d/'' url")
  case False
  then have "Index url ''/d/'' = - 1"
    by (simp add: Index_def Index_from_none)
  then have "renderDashboard hs url =
      Inr \<lparr>stdout = [], render_calls = [], returned = ([], Some (Errorf ''Invalid dashboard url''))\<rparr>"
    by (simp add: renderDashboard_def)
  with False show ?thesis by simp
next
  case True
  then have found: "Index url ''/d/'' \<noteq> - 1"
    by (simp add: Index_def Index_from_none)
  let ?i = "Index url ''/d/''"
  let ?opts = "\<lparr>Timeout = 60, OrgID = 1, OrgRole = RoleAdmin, Width = 1600,
                 Height = 800, Path = drop (nat ?i + 1) url,
                 ConcurrentLimit = RendererConcurrentRequestLimit hs,
                 DeviceScaleFactor = 1, Theme = ThemeDark\<rparr>"
  from Index_found [OF found]
  have i: "0 \<le> ?i" "prefix ''/d/'' (drop (nat ?i) url)" "\<forall>k<nat ?i. \<not> prefix ''/d/'' (drop k url)"
    by blast+
  from slash_d_slash_path [OF i(2)]
  have b: "int (nat ?i) + 1 \<le> int (length url)" "prefix ''d/'' (drop (Suc (nat ?i)) url)"
    by blast+
  have sl: "slice_from url (?i + 1) = Inr (drop (nat ?i + 1) url)"
    using i(1) b(1) by (simp add: slice_from_def nat_add_distrib)
  have run: "renderDashboard hs url =
          Inr \<lparr>stdout = [drop (nat ?i + 1) url], render_calls = [?opts],
               returned = (case Render (RenderService hs) ?opts of
                    Inl err \<Rightarrow> ([], Some (RenderError err))
                  | Inr result \<Rightarrow> (FilePath result, None))\<rparr>"
    using found sl by (simp add: renderDashboard_def Let_def split: sum.splits)
  have other: "(case Render (RenderService hs) ?opts of
                    Inl err \<Rightarrow> ([], Some (RenderError err))
                  | Inr result \<Rightarrow> (FilePath result, None))
               \<noteq> ([], Some (Errorf ''Invalid dashboard url''))"
    by (simp split: sum.splits)
  show ?thesis
    using True i b(2) run other by simp
qed

theorem renderDashboard_renders_after_first_slash_d_witness:
  "sublist ''/d/'' ''http://localhost:3000/render/d/RvNCUVm4z/dash?orgId=1''
   \<and> Index ''http://localhost:3000/render/d/RvNCUVm4z/dash?orgId=1'' ''/d/'' = 28
   \<and> renderDashboard example_renderer ''http://localhost:3000/render/d/RvNCUVm4z/dash?orgId=1'' =
     Inr \<lparr>stdout = [''d/RvNCUVm4z/dash?orgId=1''],
          render_calls = [\<lparr>Timeout = 60, OrgID = 1, OrgRole = RoleAdmin, Width = 1600, Height = 800,
                           Path = ''d/RvNCUVm4z/dash?orgId=1'', ConcurrentLimit = 30,
                           DeviceScaleFactor = 1, Theme = ThemeDark\<rparr>],
          returned = (''/img/d/RvNCUVm4z/dash?orgId=1.png'', None)\<rparr>
   \<and> \<not> sublist ''/d/'' ''http://localhost:3000/dashboards''
   \<and> renderDashboard example_renderer ''http://localhost:3000/dashboards'' =
     Inr \<lparr>stdout = [], render_calls = [],
          returned = ([], Some (Errorf ''Invalid dashboard url''))\<rparr>"
proof -
  have i: "Index ''http://localhost:3000/render/d/RvNCUVm4z/dash?orgId=1'' ''/d/'' = 28"
    by (simp add: Index_def)
  have s: "sublist ''/d/'' ''http://localhost:3000/render/d/RvNCUVm4z/dash?orgId=1''"
    using i Index_from_none [of 0 "''http://localhost:3000/render/d/RvNCUVm4z/dash?orgId=1''" "''/d/''"]
    by (simp add: Index_def)
  have j: "Index ''http://localhost:3000/dashboards'' ''/d/'' = - 1"
    by (simp add: Index_def)
  have n: "\<not> sublist ''/d/'' ''http://localhost:3000/dashboards''"
    using j Index_from_none [of 0 "''http://localhost:3000/dashboards''" "''/d/''"]
    by (simp add: Index_def)
  show ?thesis
    using i s n
      renderDashboard_renders_after_first_slash_d [of
        "''http://localhost:3000/render/d/RvNCUVm4z/dash?orgId=1''" example_renderer]
      renderDashboard_renders_after_first_slash_d [of "''http://localhost:3000/dashboards''"
        example_renderer]
    by (simp add: example_renderer_def)
qed

text \<open>
  The claim C10 as it was stated has the path start at the first \<open>d/\<close> of the URL. That
  fails where a \<open>d/\<close> stands before the first \<open>/d/\<close>, as after a host name that ends in
  \<open>d\<close>: for \<open>http://grafana.prod/d/abc\<close> the first \<open>d/\<close> is at index 18 and the suffix
  from there is \<open>d/d/abc\<close>, while the render service is given \<open>d/abc\<close>.
\<close>

theorem renderDashboard_first_d_slash_counterexample:
  "sublist ''/d/'' ''http://grafana.prod/d/abc''
   \<and> Index ''http://grafana.prod/d/abc'' ''d/'' = 18
   \<and> drop (nat (Index ''http://grafana.prod/d/abc'' ''d/'')) ''http://grafana.prod/d/abc'' = ''d/d/abc''
   \<and> renderDashboard example_renderer ''http://grafana.prod/d/abc'' =
     Inr \<lparr>stdout = [''d/abc''],
          render_calls = [\<lparr>Timeout = 60, OrgID = 1, OrgRole = RoleAdmin, Width = 1600, Height = 800,
                           Path = ''d/abc'', ConcurrentLimit = 30,
                           DeviceScaleFactor = 1, Theme = ThemeDark\<rparr>],
          returned = (''/img/d/abc.png'', None)\<rparr>
   \<and> ''d/abc'' \<noteq> ''d/d/abc''"
proof -
  have i: "Index ''http://grafana.prod/d/abc'' ''/d/'' = 19"
    by (simp add: Index_def)
  have k: "Index ''http://grafana.prod/d/abc'' ''d/'' = 18"
    by (simp add: Index_def)
  have s: "sublist ''/d/'' ''http://grafana.prod/d/abc''"
    using i Index_from_none [of 0 "''http://grafana.prod/d/abc''" "''/d/''"]
    by (simp add: Index_def)
  have r: "renderDashboard example_renderer ''http://grafana.prod/d/abc'' =
     Inr \<lparr>stdout = [''d/abc''],
          render_calls = [\<lparr>Timeout = 60, OrgID = 1, OrgRole = RoleAdmin, Width = 1600, Height = 800,
                           Path = ''d/abc'', ConcurrentLimit = 30,
                           DeviceScaleFactor = 1, Theme = ThemeDark\<rparr>],
          returned = (''/img/d/abc.png'', None)\<rparr>"
    by (simp add: renderDashboard_def i slice_from_def example_renderer_def)
  show ?thesis using s k r by simp
qed

end
